theory Spec2Isabelle
  imports Main
begin

section \<open>The countdown timekeeper hook and its storage\<close>

text \<open>
  The development embeds the hook \<open>useCountdownTimekeeper\<close> and the storage utilities it
  calls. Conventions of the embedding:
  \<^item> timestamps and durations are JavaScript numbers holding whole milliseconds: \<open>int\<close>;
  \<^item> a ref that is \<open>number | null\<close> is an \<open>int option\<close>; JavaScript truthiness of such a
    ref (\<open>null\<close> and \<open>0\<close> are falsy) is the function \<open>truthy\<close>;
  \<^item> every operation takes the value of \<open>Date.now()\<close> as the argument \<open>now\<close>; the calls to
    \<open>Date.now()\<close> inside one synchronous handler read the same value;
  \<^item> \<open>localStorage\<close> is the pair of fields \<open>storedSessions\<close> and \<open>storedState\<close>; reads
    and writes succeed (the \<open>catch\<close> branches only log);
  \<^item> the state tag of a snapshot is one of the six tags of \<open>TimekeeperState\<close>, the
    only strings the hook writes;
  \<^item> the audio functions are recorded, in call order, in the field \<open>beeps\<close>;
  \<^item> the two interval handles \<open>intervalRef\<close> and \<open>persistIntervalRef\<close> are the field
    \<open>timer\<close>: the source sets and clears them together, the arming interval having no
    persist interval; the handle carries what the interval callbacks closed over;
  \<^item> a callback created by \<open>useCallback\<close> reads \<open>config\<close>, \<open>stateData\<close> and
    \<open>audioEnabled\<close> of the render that created it (a \<open>Closure\<close>), and the refs at the
    time it runs. A handler called by the user is the one of the latest render.
\<close>

datatype TimekeeperState = Idle | Arming | Running | Paused | Finished | Aborted

datatype SessionStatus = StatusFinished | StatusAborted

record Session =
  sessId :: string
  sessActivityType :: string
  sessTargetDurationMs :: int
  startAt :: int
  endAt :: int
  status :: SessionStatus
  effectiveDurationMs :: int
  overdueMs :: "int option"

record PersistedState =
  p_state :: TimekeeperState
  p_activityType :: string
  p_targetDurationMs :: int
  p_startTimestamp :: "int option"
  p_pausedAt :: "int option"
  p_accumulatedPausedMs :: int
  p_armingStartTimestamp :: "int option"
  p_warningTriggered :: bool
  p_mute :: bool

record TimekeeperConfig =
  activityType :: string
  targetMinutes :: int
  targetSeconds :: int
  warningThresholdMinutes :: int

record TimekeeperStateData =
  state :: TimekeeperState
  remainingMs :: int
  armingCountdown :: int
  isWarning :: bool
  mute :: bool

text \<open>The values of one render that the callbacks of that render close over.\<close>

record Closure =
  cl_activityType :: string
  cl_targetDurationMs :: int
  cl_warningThresholdMs :: int
  cl_mute :: bool
  cl_audioEnabled :: bool

text \<open>
  The running interval of \<open>startTimer\<close> keeps its argument \<open>duration\<close> and the closure of
  \<open>startTimer\<close>; the arming interval of \<open>startArmingTimer\<close> keeps \<open>duration\<close> and the
  closure of \<open>startArmingTimer\<close>.
\<close>

datatype Timer = NoTimer | ArmingInterval int Closure | RunningInterval int Closure

datatype Beep = BeepOnce | BeepDouble | BeepWarningTriple | BeepFinishAlarm | BeepAbortLow

text \<open>
  The hook: React state (\<open>config\<close>, \<open>stateData\<close>, \<open>sessions\<close>, \<open>audioEnabled\<close>), the refs,
  the interval handles, \<open>localStorage\<close> and the log of beeps. \<open>memoConfig\<close> is the
  \<open>config\<close> of the render that created the memoized \<open>startArmingTimer\<close>: its dependency
  array is \<open>[clearTimer, stateData.mute, audioEnabled]\<close>, so a change of \<open>config\<close> alone
  does not re-create it, and the \<open>transitionToRunning\<close> it calls is the one of that render.
\<close>

record Hook =
  config :: TimekeeperConfig
  stateData :: TimekeeperStateData
  sessions :: "Session list"
  audioEnabled :: bool
  timer :: Timer
  startTimestampRef :: "int option"
  pausedAtRef :: "int option"
  accumulatedPausedMsRef :: int
  armingStartTimestampRef :: "int option"
  warningTriggeredRef :: bool
  sessionIdRef :: "string option"
  lastCountdownRef :: "int option"
  finishAlarmTriggeredRef :: bool
  memoConfig :: TimekeeperConfig
  storedSessions :: "Session list"
  storedState :: "PersistedState option"
  beeps :: "Beep list"

subsection \<open>Constants and small helpers\<close>

definition ARMING_DURATION :: int where
  "ARMING_DURATION = 3000"

definition MAX_SESSIONS :: nat where
  "MAX_SESSIONS = 100"

definition truthy :: "int option \<Rightarrow> bool" where
  "truthy r = (case r of None \<Rightarrow> False | Some n \<Rightarrow> n \<noteq> 0)"

definition truthyStr :: "string option \<Rightarrow> bool" where
  "truthyStr r = (case r of None \<Rightarrow> False | Some s \<Rightarrow> s \<noteq> [])"

text \<open>\<open>Math.ceil(remaining / 1000)\<close> on a whole number of milliseconds.\<close>

definition ceilSeconds :: "int \<Rightarrow> int" where
  "ceilSeconds remaining = - ((- remaining) div 1000)"

definition targetDurationMs :: "TimekeeperConfig \<Rightarrow> int" where
  "targetDurationMs cfg = targetMinutes cfg * 60 * 1000 + targetSeconds cfg * 1000"

definition warningThresholdMs :: "TimekeeperConfig \<Rightarrow> int" where
  "warningThresholdMs cfg = warningThresholdMinutes cfg * 60 * 1000"

definition closureOf :: "TimekeeperConfig \<Rightarrow> bool \<Rightarrow> bool \<Rightarrow> Closure" where
  "closureOf cfg m a =
     \<lparr>cl_activityType = activityType cfg,
      cl_targetDurationMs = targetDurationMs cfg,
      cl_warningThresholdMs = warningThresholdMs cfg,
      cl_mute = m,
      cl_audioEnabled = a\<rparr>"

text \<open>The closure of the latest render, and the one of the memoized \<open>startArmingTimer\<close>.\<close>

definition renderClosure :: "Hook \<Rightarrow> Closure" where
  "renderClosure h = closureOf (config h) (mute (stateData h)) (audioEnabled h)"

definition armingClosure :: "Hook \<Rightarrow> Closure" where
  "armingClosure h = closureOf (memoConfig h) (mute (stateData h)) (audioEnabled h)"

text \<open>
  \<open>generateId\<close>: the decimal rendering of \<open>Date.now()\<close>, a dash, and the characters
  drawn from \<open>Math.random()\<close>, which the caller supplies as \<open>rnd\<close>.
\<close>

fun showNat :: "nat \<Rightarrow> string" where
  "showNat n =
     (if n < 10 then [''0123456789'' ! n]
      else showNat (n div 10) @ [''0123456789'' ! (n mod 10)])"

declare showNat.simps [simp del]

definition showInt :: "int \<Rightarrow> string" where
  "showInt i = (if i < 0 then CHR ''-'' # showNat (nat (- i)) else showNat (nat i))"

definition generateId :: "int \<Rightarrow> string \<Rightarrow> string" where
  "generateId now rnd = showInt now @ ''-'' @ rnd"

subsection \<open>Storage utilities\<close>

definition saveSession :: "Session \<Rightarrow> Hook \<Rightarrow> Hook" where
  "saveSession s h = h\<lparr>storedSessions := take MAX_SESSIONS (s # storedSessions h)\<rparr>"

definition getLastSessions :: "nat \<Rightarrow> Hook \<Rightarrow> Session list" where
  "getLastSessions n h = take n (storedSessions h)"

definition clearSessions :: "Hook \<Rightarrow> Hook" where
  "clearSessions h = h\<lparr>storedSessions := []\<rparr>"

definition saveState :: "PersistedState \<Rightarrow> Hook \<Rightarrow> Hook" where
  "saveState p h = h\<lparr>storedState := Some p\<rparr>"

definition clearState :: "Hook \<Rightarrow> Hook" where
  "clearState h = h\<lparr>storedState := None\<rparr>"

subsection \<open>Internal callbacks of the hook\<close>

definition loadSessions :: "Hook \<Rightarrow> Hook" where
  "loadSessions h = h\<lparr>sessions := getLastSessions 10 h\<rparr>"

text \<open>The guard \<open>!stateData.mute && audioEnabled\<close> in front of every beep.\<close>

definition play :: "Closure \<Rightarrow> Beep \<Rightarrow> Hook \<Rightarrow> Hook" where
  "play cl b h = (if \<not> cl_mute cl \<and> cl_audioEnabled cl then h\<lparr>beeps := beeps h @ [b]\<rparr> else h)"

definition snapshot :: "Closure \<Rightarrow> TimekeeperState \<Rightarrow> Hook \<Rightarrow> PersistedState" where
  "snapshot cl st h =
     \<lparr>p_state = st,
      p_activityType = cl_activityType cl,
      p_targetDurationMs = cl_targetDurationMs cl,
      p_startTimestamp = startTimestampRef h,
      p_pausedAt = pausedAtRef h,
      p_accumulatedPausedMs = accumulatedPausedMsRef h,
      p_armingStartTimestamp = armingStartTimestampRef h,
      p_warningTriggered = warningTriggeredRef h,
      p_mute = cl_mute cl\<rparr>"

definition persistState :: "Closure \<Rightarrow> TimekeeperState \<Rightarrow> Hook \<Rightarrow> Hook" where
  "persistState cl st h = saveState (snapshot cl st h) h"

definition clearTimer :: "Hook \<Rightarrow> Hook" where
  "clearTimer h = h\<lparr>timer := NoTimer\<rparr>"

definition startArmingTimer :: "Closure \<Rightarrow> int \<Rightarrow> int \<Rightarrow> Hook \<Rightarrow> Hook" where
  "startArmingTimer cl duration now h =
     (clearTimer h)
       \<lparr>armingStartTimestampRef := Some now,
        warningTriggeredRef := False,
        finishAlarmTriggeredRef := False,
        lastCountdownRef := None,
        timer := ArmingInterval duration cl\<rparr>"

text \<open>
  The block \<open>if (startTimestampRef.current && sessionIdRef.current) { ... }\<close>, which
  \<open>finishSession\<close> and \<open>abortSession\<close> both contain, differing in the status only.
\<close>

definition sessionRecord :: "Closure \<Rightarrow> SessionStatus \<Rightarrow> int \<Rightarrow> Hook \<Rightarrow> Session" where
  "sessionRecord cl st now h =
     (let endTime = now;
          effectiveDuration = endTime - the (startTimestampRef h) - accumulatedPausedMsRef h;
          overdue = (if effectiveDuration > cl_targetDurationMs cl
                     then effectiveDuration - cl_targetDurationMs cl else 0)
      in \<lparr>sessId = the (sessionIdRef h),
          sessActivityType = cl_activityType cl,
          sessTargetDurationMs = cl_targetDurationMs cl,
          startAt = the (startTimestampRef h),
          endAt = endTime,
          status = st,
          effectiveDurationMs = effectiveDuration,
          overdueMs = (if overdue > 0 then Some overdue else None)\<rparr>)"

definition commitSession :: "Closure \<Rightarrow> SessionStatus \<Rightarrow> int \<Rightarrow> Hook \<Rightarrow> Hook" where
  "commitSession cl st now h =
     (if truthy (startTimestampRef h) \<and> truthyStr (sessionIdRef h)
      then loadSessions (saveSession (sessionRecord cl st now h) h)
      else h)"

text \<open>The block under the comment \<open>Reset refs\<close>, the same in finish, abort and reset.\<close>

definition resetRefs :: "Hook \<Rightarrow> Hook" where
  "resetRefs h =
     h\<lparr>startTimestampRef := None,
       pausedAtRef := None,
       accumulatedPausedMsRef := 0,
       armingStartTimestampRef := None,
       warningTriggeredRef := False,
       finishAlarmTriggeredRef := False,
       sessionIdRef := None\<rparr>"

definition finishSessionCl :: "Closure \<Rightarrow> int \<Rightarrow> Hook \<Rightarrow> Hook" where
  "finishSessionCl cl now h =
     (let h1 = commitSession cl StatusFinished now (clearTimer h);
          h2 = h1\<lparr>stateData := (stateData h1)\<lparr>state := Finished, remainingMs := 0, isWarning := False\<rparr>\<rparr>;
          h3 = play cl BeepFinishAlarm h2
      in clearState (resetRefs h3))"

definition startTimer :: "Closure \<Rightarrow> int \<Rightarrow> Hook \<Rightarrow> Hook" where
  "startTimer cl duration h =
     persistState cl Running ((clearTimer h)\<lparr>timer := RunningInterval duration cl\<rparr>)"

definition transitionToRunning :: "Closure \<Rightarrow> int \<Rightarrow> int \<Rightarrow> string \<Rightarrow> Hook \<Rightarrow> Hook" where
  "transitionToRunning cl duration now rnd h =
     (let h1 = h\<lparr>stateData := (stateData h)\<lparr>state := Running, armingCountdown := 0\<rparr>,
                 startTimestampRef := Some now,
                 accumulatedPausedMsRef := 0,
                 pausedAtRef := None,
                 sessionIdRef := Some (generateId now rnd)\<rparr>
      in startTimer cl duration (play cl BeepDouble h1))"

subsection \<open>The interval callbacks\<close>

text \<open>The callback that \<open>startArmingTimer\<close> installs (every 100 ms).\<close>

definition armingTick :: "int \<Rightarrow> Closure \<Rightarrow> int \<Rightarrow> string \<Rightarrow> Hook \<Rightarrow> Hook" where
  "armingTick duration cl now rnd h =
     (let elapsed = now - (if truthy (armingStartTimestampRef h)
                           then the (armingStartTimestampRef h) else now);
          remaining = ARMING_DURATION - elapsed;
          countdown = ceilSeconds remaining;
          h1 = (if countdown > 0 \<and> Some countdown \<noteq> lastCountdownRef h
                   \<and> \<not> cl_mute cl \<and> cl_audioEnabled cl
                then h\<lparr>beeps := beeps h @ [BeepOnce], lastCountdownRef := Some countdown\<rparr>
                else h)
      in if remaining \<le> 0
         then transitionToRunning cl duration now rnd (clearTimer h1)
         else h1\<lparr>stateData := (stateData h1)\<lparr>armingCountdown := max 0 countdown\<rparr>\<rparr>)"

text \<open>The display callback that \<open>startTimer\<close> installs (every \<open>TICK_INTERVAL\<close> = 16 ms).\<close>

definition runningTick :: "int \<Rightarrow> Closure \<Rightarrow> int \<Rightarrow> Hook \<Rightarrow> Hook" where
  "runningTick duration cl now h =
     (if \<not> truthy (startTimestampRef h) then h
      else
        let elapsed = now - the (startTimestampRef h) - accumulatedPausedMsRef h;
            remaining = duration - elapsed;
            h1 = (if \<not> warningTriggeredRef h \<and> remaining > 0
                     \<and> remaining \<le> cl_warningThresholdMs cl
                  then play cl BeepWarningTriple
                         (h\<lparr>warningTriggeredRef := True,
                            stateData := (stateData h)\<lparr>isWarning := True\<rparr>\<rparr>)
                  else h);
            h2 = (if \<not> finishAlarmTriggeredRef h1 \<and> remaining \<le> 0
                  then play cl BeepFinishAlarm (h1\<lparr>finishAlarmTriggeredRef := True\<rparr>)
                  else h1)
        in h2\<lparr>stateData := (stateData h2)\<lparr>remainingMs := remaining\<rparr>\<rparr>)"

text \<open>One firing of \<open>intervalRef\<close>, whichever callback it holds.\<close>

definition tick :: "int \<Rightarrow> string \<Rightarrow> Hook \<Rightarrow> Hook" where
  "tick now rnd h =
     (case timer h of
        NoTimer \<Rightarrow> h
      | ArmingInterval duration cl \<Rightarrow> armingTick duration cl now rnd h
      | RunningInterval duration cl \<Rightarrow> runningTick duration cl now h)"

text \<open>Successive firings of \<open>intervalRef\<close>, each at its own time.\<close>

fun ticks :: "(int \<times> string) list \<Rightarrow> Hook \<Rightarrow> Hook" where
  "ticks [] h = h"
| "ticks ((now, rnd) # rest) h = ticks rest (tick now rnd h)"

text \<open>One firing of \<open>persistIntervalRef\<close> (every \<open>PERSIST_INTERVAL\<close> = 250 ms).\<close>

definition persistTick :: "Hook \<Rightarrow> Hook" where
  "persistTick h =
     (case timer h of
        NoTimer \<Rightarrow> h
      | ArmingInterval duration cl \<Rightarrow> h
      | RunningInterval duration cl \<Rightarrow> persistState cl Running h)"

subsection \<open>The operations the hook returns\<close>

text \<open>
  The source's guards return early on the negated condition (\<open>if (state !== 'idle')
  return\<close>); the model tests the condition itself and puts the early return in the
  \<open>else\<close> branch.
\<close>

definition startSession :: "int \<Rightarrow> Hook \<Rightarrow> Hook" where
  "startSession now h =
     (if state (stateData h) = Idle
      then
        let h1 = h\<lparr>stateData := (stateData h)\<lparr>state := Arming\<rparr>\<rparr>;
            h2 = startArmingTimer (armingClosure h) (targetDurationMs (config h)) now h1
        in persistState (renderClosure h) Arming h2
      else h)"

definition pauseSession :: "int \<Rightarrow> Hook \<Rightarrow> Hook" where
  "pauseSession now h =
     (if state (stateData h) = Running
      then
        let h1 = (clearTimer h)\<lparr>pausedAtRef := Some now\<rparr>;
            h2 = h1\<lparr>stateData := (stateData h1)\<lparr>state := Paused\<rparr>\<rparr>
        in persistState (renderClosure h) Paused h2
      else h)"

definition resumeSession :: "int \<Rightarrow> Hook \<Rightarrow> Hook" where
  "resumeSession now h =
     (if state (stateData h) = Paused \<and> truthy (startTimestampRef h) \<and> truthy (pausedAtRef h)
      then
        let h1 = h\<lparr>accumulatedPausedMsRef := accumulatedPausedMsRef h + (now - the (pausedAtRef h)),
                    pausedAtRef := None\<rparr>;
            h2 = h1\<lparr>stateData := (stateData h1)\<lparr>state := Running\<rparr>\<rparr>;
            nowElapsed = now - the (startTimestampRef h2) - accumulatedPausedMsRef h2;
            remaining = targetDurationMs (config h) - nowElapsed
        in if remaining \<le> 0
           then finishSessionCl (renderClosure h) now h2
           else startTimer (renderClosure h) (targetDurationMs (config h)) h2
      else h)"

definition abortSession :: "int \<Rightarrow> Hook \<Rightarrow> Hook" where
  "abortSession now h =
     (if state (stateData h) = Idle \<or> state (stateData h) = Finished then h
      else
        let cl = renderClosure h;
            h1 = commitSession cl StatusAborted now (clearTimer h);
            h2 = h1\<lparr>stateData := (stateData h1)\<lparr>state := Aborted, isWarning := False,
                                                armingCountdown := 0\<rparr>\<rparr>;
            h3 = play cl BeepAbortLow h2
        in clearState (resetRefs h3))"

definition finishSession :: "int \<Rightarrow> Hook \<Rightarrow> Hook" where
  "finishSession now h = finishSessionCl (renderClosure h) now h"

definition resetSession :: "Hook \<Rightarrow> Hook" where
  "resetSession h =
     (let h1 = (clearTimer h)
                 \<lparr>stateData := \<lparr>state = Idle, remainingMs = 0, armingCountdown = 0,
                                isWarning = False, mute = mute (stateData h)\<rparr>\<rparr>
      in clearState (resetRefs h1))"

text \<open>
  \<open>toggleMute\<close> calls \<open>persistState\<close> inside the state updater, so the snapshot it writes
  still has the old mute flag. A change of \<open>stateData.mute\<close> or \<open>audioEnabled\<close>
  re-creates \<open>startArmingTimer\<close> and with it the \<open>config\<close> it sees.
\<close>

definition toggleMute :: "Hook \<Rightarrow> Hook" where
  "toggleMute h =
     (let h1 = persistState (renderClosure h) (state (stateData h)) h
      in h1\<lparr>stateData := (stateData h1)\<lparr>mute := \<not> mute (stateData h1)\<rparr>,
            memoConfig := config h1\<rparr>)"

definition enableAudio :: "Hook \<Rightarrow> Hook" where
  "enableAudio h =
     h\<lparr>audioEnabled := True,
       memoConfig := (if audioEnabled h then memoConfig h else config h)\<rparr>"

definition setConfig :: "TimekeeperConfig \<Rightarrow> Hook \<Rightarrow> Hook" where
  "setConfig cfg h = h\<lparr>config := cfg\<rparr>"

definition clearHistory :: "Hook \<Rightarrow> Hook" where
  "clearHistory h = loadSessions (clearSessions h)"

subsection \<open>The first render and the mount effect\<close>

definition defaultConfig :: TimekeeperConfig where
  "defaultConfig =
     \<lparr>activityType = ''Loading'', targetMinutes = 5, targetSeconds = 0,
      warningThresholdMinutes = 2\<rparr>"

text \<open>The hook after its first render, over a given content of \<open>localStorage\<close>.\<close>

definition initialHook :: "Session list \<Rightarrow> PersistedState option \<Rightarrow> Hook" where
  "initialHook ss st =
     \<lparr>config = defaultConfig,
      stateData = \<lparr>state = Idle, remainingMs = 0, armingCountdown = 0,
                   isWarning = False, mute = False\<rparr>,
      sessions = [],
      audioEnabled = False,
      timer = NoTimer,
      startTimestampRef = None,
      pausedAtRef = None,
      accumulatedPausedMsRef = 0,
      armingStartTimestampRef = None,
      warningTriggeredRef = False,
      sessionIdRef = None,
      lastCountdownRef = None,
      finishAlarmTriggeredRef = False,
      memoConfig = defaultConfig,
      storedSessions = ss,
      storedState = st,
      beeps = []\<rparr>"

text \<open>The assignments of the mount effect under the comment \<open>Restore state\<close>.\<close>

definition restoreState :: "PersistedState \<Rightarrow> Hook \<Rightarrow> Hook" where
  "restoreState s h =
     h\<lparr>config := (config h)\<lparr>activityType :=
                    (if p_activityType s \<noteq> [] then p_activityType s
                     else activityType (config h))\<rparr>,
       stateData := (stateData h)\<lparr>state := p_state s, mute := p_mute s\<rparr>,
       startTimestampRef := p_startTimestamp s,
       pausedAtRef := p_pausedAt s,
       accumulatedPausedMsRef := p_accumulatedPausedMs s,
       armingStartTimestampRef := p_armingStartTimestamp s,
       warningTriggeredRef := p_warningTriggered s\<rparr>"

text \<open>The branch of the mount effect under the comment \<open>Resume timer if needed\<close>.\<close>

definition resumeTimer :: "Closure \<Rightarrow> PersistedState \<Rightarrow> int \<Rightarrow> string \<Rightarrow> Hook \<Rightarrow> Hook" where
  "resumeTimer cl s now rnd h =
     (if p_state s = Running then
        (if truthy (startTimestampRef h) then
           (let elapsed = now - the (startTimestampRef h) - accumulatedPausedMsRef h;
                remaining = p_targetDurationMs s - elapsed
            in if remaining \<le> 0 then finishSessionCl cl now h
               else startTimer cl (p_targetDurationMs s) h)
         else h)
      else if p_state s = Arming then
        (if truthy (armingStartTimestampRef h) then
           (let elapsed = now - the (armingStartTimestampRef h);
                remaining = ARMING_DURATION - elapsed
            in if remaining \<le> 0 then transitionToRunning cl (p_targetDurationMs s) now rnd h
               else startArmingTimer cl (p_targetDurationMs s) now h)
         else h)
      else h)"

text \<open>
  The mount effect. It runs once, with the callbacks of the render it follows, so the
  closure it passes on is the one of \<open>h\<close> before the restore. The render after it
  re-creates \<open>startArmingTimer\<close> when the restore changed the mute flag.
\<close>

definition mount :: "int \<Rightarrow> string \<Rightarrow> Hook \<Rightarrow> Hook" where
  "mount now rnd h =
     (case storedState h of
        None \<Rightarrow> loadSessions h
      | Some s \<Rightarrow>
          if p_state s = Idle then loadSessions h
          else
            let h1 = resumeTimer (renderClosure h) s now rnd (restoreState s h);
                h2 = loadSessions h1
            in h2\<lparr>memoConfig := (if mute (stateData h2) = mute (stateData h)
                                   then memoConfig h else config h2)\<rparr>)"

text \<open>The remaining time the source recomputes: \<open>duration - (now - start - paused)\<close>.\<close>

definition remainingAt :: "int \<Rightarrow> int \<Rightarrow> Hook \<Rightarrow> int" where
  "remainingAt duration now h =
     duration - (now - the (startTimestampRef h) - accumulatedPausedMsRef h)"

text \<open>
  A page load: the first render of the hook over the \<open>localStorage\<close> that \<open>h\<close> left
  behind. Refs, React state and intervals of \<open>h\<close> are gone.
\<close>

definition reload :: "Hook \<Rightarrow> Hook" where
  "reload h = initialHook (storedSessions h) (storedState h)"

subsection \<open>Reachable states\<close>

text \<open>
  The states of the hook in one page: the mount effect runs once after the first render,
  then interval callbacks and the returned operations run in any order.
\<close>

inductive reachable :: "Hook \<Rightarrow> bool" where
  reach_mount: "reachable (mount now rnd (initialHook ss st))"
| reach_tick: "reachable h \<Longrightarrow> reachable (tick now rnd h)"
| reach_persistTick: "reachable h \<Longrightarrow> reachable (persistTick h)"
| reach_setConfig: "reachable h \<Longrightarrow> reachable (setConfig cfg h)"
| reach_startSession: "reachable h \<Longrightarrow> reachable (startSession now h)"
| reach_pauseSession: "reachable h \<Longrightarrow> reachable (pauseSession now h)"
| reach_resumeSession: "reachable h \<Longrightarrow> reachable (resumeSession now h)"
| reach_abortSession: "reachable h \<Longrightarrow> reachable (abortSession now h)"
| reach_finishSession: "reachable h \<Longrightarrow> reachable (finishSession now h)"
| reach_resetSession: "reachable h \<Longrightarrow> reachable (resetSession h)"
| reach_toggleMute: "reachable h \<Longrightarrow> reachable (toggleMute h)"
| reach_enableAudio: "reachable h \<Longrightarrow> reachable (enableAudio h)"
| reach_clearHistory: "reachable h \<Longrightarrow> reachable (clearHistory h)"

subsection \<open>Sessions started in the page\<close>



subsection \<open>A concrete session\<close>

text \<open>
  A page is loaded over an empty \<open>localStorage\<close>; the user sets a target of ten seconds
  with the warning threshold at zero, enables the sound and starts a session at time
  1000. The arming interval fires at 4000, three seconds later, and the session runs.
\<close>

definition exampleConfig :: TimekeeperConfig where
  "exampleConfig =
     \<lparr>activityType = ''Repair'', targetMinutes = 0, targetSeconds = 10,
      warningThresholdMinutes = 0\<rparr>"

definition freshExample :: Hook where
  "freshExample = mount 500 [] (initialHook [] None)"

definition armingExample :: Hook where
  "armingExample = startSession 1000 (enableAudio (setConfig exampleConfig freshExample))"

definition runningExample :: Hook where
  "runningExample = tick 4000 ''k3j9x2m1q'' armingExample"

definition exampleClosure :: Closure where
  "exampleClosure =
     \<lparr>cl_activityType = ''Repair'', cl_targetDurationMs = 10000,
      cl_warningThresholdMs = 0, cl_mute = False, cl_audioEnabled = True\<rparr>"

text \<open>The snapshot that \<open>runningExample\<close> has written.\<close>

definition exampleSnapshot :: PersistedState where
  "exampleSnapshot =
     \<lparr>p_state = Running, p_activityType = ''Repair'', p_targetDurationMs = 10000,
      p_startTimestamp = Some 4000, p_pausedAt = None, p_accumulatedPausedMs = 0,
      p_armingStartTimestamp = Some 1000, p_warningTriggered = False, p_mute = False\<rparr>"

text \<open>The same session paused at 9000, after five seconds of running.\<close>

definition pausedExample :: Hook where
  "pausedExample = pauseSession 9000 runningExample"

text \<open>A record of an earlier session, and a page that starts arming over that history.\<close>

definition earlierSession :: Session where
  "earlierSession =
     \<lparr>sessId = ''100-a1b2c3d4e'', sessActivityType = ''Loading'',
      sessTargetDurationMs = 300000, startAt = 100, endAt = 200,
      status = StatusAborted, effectiveDurationMs = 100, overdueMs = None\<rparr>"

definition armingOverHistory :: Hook where
  "armingOverHistory = startSession 1000 (mount 500 [] (initialHook [earlierSession] None))"

text \<open>The running session paused at 20000, after the tick at 19000 has shown it overdue.\<close>

definition overduePausedExample :: Hook where
  "overduePausedExample = pauseSession 20000 (tick 19000 [] runningExample)"

text \<open>
  The running session shows 5000 ms at the tick at 9000 and is paused there; the page
  is reloaded at 10000 over the snapshot it wrote. The overdue paused session is
  reloaded at 21000.
\<close>

definition reloadedPausedExample :: Hook where
  "reloadedPausedExample = mount 10000 [] (reload (pauseSession 9000 (tick 9000 [] runningExample)))"

definition reloadedOverdueExample :: Hook where
  "reloadedOverdueExample = mount 21000 [] (reload overduePausedExample)"

section \<open>Evaluation of the model\<close>

lemmas storage_defs = saveSession_def getLastSessions_def clearSessions_def saveState_def
  clearState_def MAX_SESSIONS_def

lemmas helper_defs = ARMING_DURATION_def truthy_def truthyStr_def ceilSeconds_def
  targetDurationMs_def warningThresholdMs_def closureOf_def renderClosure_def
  armingClosure_def

lemmas callback_defs = loadSessions_def play_def snapshot_def persistState_def clearTimer_def
  startArmingTimer_def sessionRecord_def commitSession_def resetRefs_def finishSessionCl_def
  startTimer_def transitionToRunning_def armingTick_def runningTick_def tick_def
  persistTick_def

lemmas operation_defs = startSession_def pauseSession_def resumeSession_def abortSession_def
  finishSession_def resetSession_def toggleMute_def enableAudio_def setConfig_def
  clearHistory_def defaultConfig_def initialHook_def restoreState_def resumeTimer_def
  mount_def remainingAt_def

lemmas example_defs = exampleConfig_def freshExample_def armingExample_def runningExample_def
  exampleClosure_def exampleSnapshot_def pausedExample_def earlierSession_def
  armingOverHistory_def reload_def overduePausedExample_def reloadedPausedExample_def
  reloadedOverdueExample_def

lemmas all_defs = example_defs operation_defs callback_defs helper_defs storage_defs

lemma generateId_example: "generateId 4000 ''k3j9x2m1q'' = ''4000-k3j9x2m1q''"
  by (simp add: generateId_def showInt_def showNat.simps)


text \<open>The fields of the concrete session that the later statements read.\<close>

lemma freshExample_fields:
  "state (stateData freshExample) = Idle"
  by (simp_all add: all_defs)

lemma armingExample_fields:
  "state (stateData armingExample) = Arming"
  "mute (stateData armingExample) = False"
  "audioEnabled armingExample = True"
  "beeps armingExample = []"
  "storedSessions armingExample = []"
  "sessions armingExample = []"
  by (simp_all add: all_defs)

lemma runningExample_fields:
  "state (stateData runningExample) = Running"
  "timer runningExample = RunningInterval 10000 exampleClosure"
  "startTimestampRef runningExample = Some 4000"
  "sessionIdRef runningExample = Some ''4000-k3j9x2m1q''"
  "accumulatedPausedMsRef runningExample = 0"
  "finishAlarmTriggeredRef runningExample = False"
  "warningTriggeredRef runningExample = False"
  "storedSessions runningExample = []"
  "storedState runningExample = Some exampleSnapshot"
  "beeps runningExample = [BeepDouble]"
  "config runningExample = exampleConfig"
  "audioEnabled runningExample = True"
  "mute (stateData runningExample) = False"
  "pausedAtRef runningExample = None"
  by (simp_all add: all_defs generateId_example)




lemma abortedExample_fields:
  "state (stateData (abortSession 5000 runningExample)) = Aborted"
  by (simp_all add: all_defs generateId_example)

section \<open>Helper lemmas on the callbacks\<close>

lemma tick_running:
  "timer h = RunningInterval d cl \<Longrightarrow> tick now rnd h = runningTick d cl now h"
  by (simp add: tick_def)

lemma runningTick_overdue_first:
  assumes "truthy (startTimestampRef h)"
    and "\<not> finishAlarmTriggeredRef h"
    and "remainingAt d now h \<le> 0"
  shows "runningTick d cl now h =
    (play cl BeepFinishAlarm (h\<lparr>finishAlarmTriggeredRef := True\<rparr>))
      \<lparr>stateData := (stateData h)\<lparr>remainingMs := remainingAt d now h\<rparr>\<rparr>"
  using assms by (simp add: runningTick_def remainingAt_def play_def Let_def)

lemma runningTick_overdue_later:
  assumes "truthy (startTimestampRef h)"
    and "finishAlarmTriggeredRef h"
    and "remainingAt d now h \<le> 0"
  shows "runningTick d cl now h =
    h\<lparr>stateData := (stateData h)\<lparr>remainingMs := remainingAt d now h\<rparr>\<rparr>"
  using assms by (simp add: runningTick_def remainingAt_def Let_def)

lemma overdue_ticks_silent:
  assumes "timer g = RunningInterval d cl"
    and "truthy (startTimestampRef g)"
    and "finishAlarmTriggeredRef g"
    and "state (stateData g) = Running"
    and "\<forall>(t, r) \<in> set later. remainingAt d t g \<le> 0"
  shows "state (stateData (ticks later g)) = Running
    \<and> beeps (ticks later g) = beeps g
    \<and> storedSessions (ticks later g) = storedSessions g
    \<and> storedState (ticks later g) = storedState g"
  using assms
proof (induction later arbitrary: g)
  case Nil
  then show ?case by simp
next
  case (Cons a later)
  obtain t r where a: "a = (t, r)" by (cases a)
  define g1 where "g1 = tick t r g"
  have rem: "remainingAt d t g \<le> 0"
    using Cons.prems(5) a by simp
  have step: "g1 = g\<lparr>stateData := (stateData g)\<lparr>remainingMs := remainingAt d t g\<rparr>\<rparr>"
    unfolding g1_def tick_running [OF Cons.prems(1)]
    by (rule runningTick_overdue_later [OF Cons.prems(2,3) rem])
  have p1: "timer g1 = RunningInterval d cl"
    and p2: "truthy (startTimestampRef g1)"
    and p3: "finishAlarmTriggeredRef g1"
    and p4: "state (stateData g1) = Running"
    using Cons.prems(1-4) by (simp_all add: step)
  have p5: "\<forall>(t, r) \<in> set later. remainingAt d t g1 \<le> 0"
    using Cons.prems(5) by (simp add: step remainingAt_def)
  from Cons.IH [OF p1 p2 p3 p4 p5] show ?case
    by (simp add: a g1_def [symmetric]) (simp add: step)
qed

lemma abortSession_unfold:
  "state (stateData h) \<noteq> Idle \<Longrightarrow> state (stateData h) \<noteq> Finished \<Longrightarrow>
   abortSession now h =
     clearState (resetRefs (play (renderClosure h) BeepAbortLow
       ((commitSession (renderClosure h) StatusAborted now (clearTimer h))
          \<lparr>stateData := (stateData (commitSession (renderClosure h) StatusAborted now (clearTimer h)))
             \<lparr>state := Aborted, isWarning := False, armingCountdown := 0\<rparr>\<rparr>)))"
  by (simp add: abortSession_def Let_def)

lemma commitSession_skip:
  "sessionIdRef g = None \<Longrightarrow> commitSession cl st now g = g"
  by (simp add: commitSession_def truthyStr_def)



subsection \<open>No session id exists before the session runs\<close>

text \<open>
  \<open>sessionIdRef\<close> is written by \<open>transitionToRunning\<close> only, and cleared by finish, abort
  and reset: in every reachable state that is Idle or Arming it is \<open>null\<close>.
\<close>

lemma mount_no_session:
  assumes "state (stateData (mount now rnd (initialHook ss st))) = Idle
           \<or> state (stateData (mount now rnd (initialHook ss st))) = Arming"
  shows "sessionIdRef (mount now rnd (initialHook ss st)) = None"
  using assms
  by (auto simp add: mount_def initialHook_def restoreState_def resumeTimer_def loadSessions_def
      finishSessionCl_def startTimer_def transitionToRunning_def startArmingTimer_def
      persistState_def saveState_def clearState_def resetRefs_def clearTimer_def play_def
      commitSession_def Let_def
      split: option.splits if_splits)

lemma tick_no_session:
  assumes "state (stateData h) = Idle \<or> state (stateData h) = Arming \<Longrightarrow> sessionIdRef h = None"
    and "state (stateData (tick now rnd h)) = Idle \<or> state (stateData (tick now rnd h)) = Arming"
  shows "sessionIdRef (tick now rnd h) = None"
  using assms
  by (auto simp add: tick_def armingTick_def runningTick_def transitionToRunning_def
      startTimer_def persistState_def saveState_def clearTimer_def play_def Let_def
      split: Timer.splits if_splits)

lemma reachable_no_session:
  "reachable h \<Longrightarrow> state (stateData h) = Idle \<or> state (stateData h) = Arming
     \<Longrightarrow> sessionIdRef h = None"
proof (induction rule: reachable.induct)
  case (reach_mount now rnd ss st)
  then show ?case by (rule mount_no_session)
next
  case (reach_tick h now rnd)
  from reach_tick.IH reach_tick.prems show ?case by (rule tick_no_session)
next
  case (reach_persistTick h)
  then show ?case
    by (auto simp add: persistTick_def persistState_def saveState_def split: Timer.splits)
next
  case (reach_setConfig h cfg)
  then show ?case by (simp add: setConfig_def)
next
  case (reach_startSession h now)
  then show ?case
    by (auto simp add: startSession_def startArmingTimer_def persistState_def saveState_def
        clearTimer_def Let_def split: if_splits)
next
  case (reach_pauseSession h now)
  then show ?case
    by (auto simp add: pauseSession_def persistState_def saveState_def clearTimer_def Let_def
        split: if_splits)
next
  case (reach_resumeSession h now)
  then show ?case
    by (auto simp add: resumeSession_def finishSessionCl_def startTimer_def persistState_def
        saveState_def clearState_def resetRefs_def clearTimer_def play_def commitSession_def
        loadSessions_def saveSession_def Let_def split: if_splits)
next
  case (reach_abortSession h now)
  then show ?case
    by (auto simp add: abortSession_def clearState_def resetRefs_def clearTimer_def play_def
        commitSession_def loadSessions_def saveSession_def Let_def split: if_splits)
next
  case (reach_finishSession h now)
  then show ?case
    by (auto simp add: finishSession_def finishSessionCl_def clearState_def resetRefs_def
        clearTimer_def play_def commitSession_def loadSessions_def saveSession_def Let_def
        split: if_splits)
next
  case (reach_resetSession h)
  then show ?case
    by (simp add: resetSession_def clearState_def resetRefs_def clearTimer_def)
next
  case (reach_toggleMute h)
  then show ?case by (simp add: toggleMute_def persistState_def saveState_def Let_def)
next
  case (reach_enableAudio h)
  then show ?case by (simp add: enableAudio_def)
next
  case (reach_clearHistory h)
  then show ?case by (simp add: clearHistory_def loadSessions_def clearSessions_def)
qed

lemma reachable_armingExample: "reachable armingExample"
  unfolding armingExample_def freshExample_def by (intro reachable.intros)

subsection \<open>A session that runs in its page has its timestamps and its id\<close>












subsection \<open>No session id is left after a terminal transition\<close>





subsection \<open>What the terminal transitions commit\<close>












section \<open>The tick at the deadline (C1)\<close>

text \<open>
  C1: when the periodic tick first observes the remaining time of a Running session to
  be \<open>\<le> 0\<close>, the hook must move to Finished, commit a finished Session Record and clear
  the snapshot. In the concrete session the target is 10000 ms and the session started
  at 4000. The tick at 19000, 15000 ms later, fires the finish alert and shows -5000,
  but never calls \<open>finishSession\<close>: the state stays Running, no Session Record is
  committed and the snapshot stays, also after the ticks at 19016 and 19032. The mount
  effect and \<open>resumeSession\<close> do call \<open>finishSession\<close> when they find the remaining time
  \<open>\<le> 0\<close>.
\<close>

theorem tick_overdue_not_finished:
  "state (stateData runningExample) = Running
   \<and> state (stateData (tick 19000 [] runningExample)) \<noteq> Finished
   \<and> state (stateData (tick 19000 [] runningExample)) = Running
   \<and> remainingMs (stateData (tick 19000 [] runningExample)) = - 5000
   \<and> storedSessions (tick 19000 [] runningExample) = []
   \<and> sessions (tick 19000 [] runningExample) = []
   \<and> storedState (tick 19000 [] runningExample) = Some exampleSnapshot
   \<and> beeps (tick 19000 [] runningExample) = [BeepDouble, BeepFinishAlarm]
   \<and> state (stateData (ticks [(19016, []), (19032, [])] (tick 19000 [] runningExample)))
       = Running
   \<and> storedSessions (ticks [(19016, []), (19032, [])] (tick 19000 [] runningExample)) = []"
  by (simp add: all_defs generateId_example)

text \<open>
  The same holds for every Running session, not only the concrete one. The tick that
  first finds the remaining time \<open>\<le> 0\<close> leaves the state Running, commits nothing and
  keeps the snapshot; the finish alert it fires depends on the mute and sound flags that
  the interval closed over when \<open>startTimer\<close> created it, not on the current ones; any
  number of later ticks change neither the state nor the history nor the log of beeps.
\<close>

lemma tick_at_deadline:
  assumes "state (stateData h) = Running"
    and "timer h = RunningInterval d cl"
    and "truthy (startTimestampRef h)"
    and "\<not> finishAlarmTriggeredRef h"
    and "remainingAt d now h \<le> 0"
    and "\<forall>(t, r) \<in> set later. now \<le> t"
  shows "state (stateData (tick now rnd h)) = Running
    \<and> remainingMs (stateData (tick now rnd h)) = remainingAt d now h
    \<and> finishAlarmTriggeredRef (tick now rnd h)
    \<and> beeps (tick now rnd h) =
        (if \<not> cl_mute cl \<and> cl_audioEnabled cl then beeps h @ [BeepFinishAlarm] else beeps h)
    \<and> storedSessions (tick now rnd h) = storedSessions h
    \<and> sessions (tick now rnd h) = sessions h
    \<and> storedState (tick now rnd h) = storedState h
    \<and> state (stateData (ticks later (tick now rnd h))) = Running
    \<and> beeps (ticks later (tick now rnd h)) = beeps (tick now rnd h)
    \<and> storedSessions (ticks later (tick now rnd h)) = storedSessions h"
proof -
  define h1 where "h1 = tick now rnd h"
  have first: "h1 = (play cl BeepFinishAlarm (h\<lparr>finishAlarmTriggeredRef := True\<rparr>))
                \<lparr>stateData := (stateData h)\<lparr>remainingMs := remainingAt d now h\<rparr>\<rparr>"
    unfolding h1_def tick_running [OF assms(2)]
    by (rule runningTick_overdue_first [OF assms(3,4,5)])
  have t1: "timer h1 = RunningInterval d cl"
    and s1: "startTimestampRef h1 = startTimestampRef h"
    and a1: "accumulatedPausedMsRef h1 = accumulatedPausedMsRef h"
    and f1: "finishAlarmTriggeredRef h1"
    and st1: "state (stateData h1) = Running"
    and rm1: "remainingMs (stateData h1) = remainingAt d now h"
    and b1: "beeps h1 =
        (if \<not> cl_mute cl \<and> cl_audioEnabled cl then beeps h @ [BeepFinishAlarm] else beeps h)"
    and ss1: "storedSessions h1 = storedSessions h"
    and se1: "sessions h1 = sessions h"
    and sn1: "storedState h1 = storedState h"
    using assms(1,2) by (simp_all add: first play_def)
  have tr1: "truthy (startTimestampRef h1)"
    using assms(3) by (simp add: s1)
  have r2: "\<forall>(t, r) \<in> set later. remainingAt d t h1 \<le> 0"
    using assms(5,6) by (auto simp add: remainingAt_def s1 a1)
  from overdue_ticks_silent [OF t1 tr1 f1 st1 r2]
  have st2: "state (stateData (ticks later h1)) = Running"
    and b2: "beeps (ticks later h1) = beeps h1"
    and ss2: "storedSessions (ticks later h1) = storedSessions h"
    by (simp_all add: ss1)
  show ?thesis
    unfolding h1_def [symmetric]
    using st1 rm1 f1 b1 ss1 se1 sn1 st2 b2 ss2 by blast
qed

section \<open>Restoring an overdue session (C2)\<close>

text \<open>
  C2: a reload of the page at 20000, over the snapshot of the running session whose
  deadline was 14000, must commit a finished Session Record. The mount effect calls
  \<open>finishSession\<close>, which reaches the state Finished and clears the snapshot, but
  \<open>sessionIdRef\<close> is not part of the snapshot and is \<open>null\<close> after a reload, so the block
  that saves the record is skipped: the history stays empty.
\<close>

theorem mount_overdue_commits_no_record:
  "storedState runningExample = Some exampleSnapshot
   \<and> state (stateData (mount 20000 [] (reload runningExample))) = Finished
   \<and> storedSessions (mount 20000 [] (reload runningExample)) = []
   \<and> sessions (mount 20000 [] (reload runningExample)) = []
   \<and> storedState (mount 20000 [] (reload runningExample)) = None"
  by (simp add: all_defs generateId_example)

section \<open>Alerts fire at most once (C3)\<close>

text \<open>
  C3: the finish alert must fire at most once per session. In the concrete session the
  tick at 19000 fires it; the user pauses at 20000 and resumes at 25000; \<open>resumeSession\<close>
  finds the remaining time \<open>\<le> 0\<close> and calls \<open>finishSession\<close>, which fires the finish
  alert again without reading \<open>finishAlarmTriggeredRef\<close>. The session id is the same
  throughout.
\<close>

theorem finish_alarm_fires_twice:
  "sessionIdRef (tick 19000 [] runningExample) = Some ''4000-k3j9x2m1q''
   \<and> beeps (tick 19000 [] runningExample) = [BeepDouble, BeepFinishAlarm]
   \<and> sessionIdRef (pauseSession 20000 (tick 19000 [] runningExample)) = Some ''4000-k3j9x2m1q''
   \<and> beeps (resumeSession 25000 (pauseSession 20000 (tick 19000 [] runningExample)))
        = [BeepDouble, BeepFinishAlarm, BeepFinishAlarm]
   \<and> map sessId (storedSessions
         (resumeSession 25000 (pauseSession 20000 (tick 19000 [] runningExample))))
        = [''4000-k3j9x2m1q'']"
  by (simp add: all_defs generateId_example)

section \<open>Abort while paused (C4)\<close>

text \<open>
  C4: the record of a session aborted while Paused must not count the pause that the
  abort ends. The concrete session ran from 4000 to 9000 and is aborted at 12000 while
  paused: the record has an effective duration of 8000 ms, the 5000 ms of running plus
  the 3000 ms of the pause, because \<open>abortSession\<close> subtracts \<open>accumulatedPausedMsRef\<close>
  only, which grows on resume.
\<close>

theorem abort_while_paused_counts_pause:
  "state (stateData pausedExample) = Paused
   \<and> startTimestampRef pausedExample = Some 4000
   \<and> pausedAtRef pausedExample = Some 9000
   \<and> accumulatedPausedMsRef pausedExample = 0
   \<and> storedSessions (abortSession 12000 pausedExample) =
       [\<lparr>sessId = ''4000-k3j9x2m1q'', sessActivityType = ''Repair'',
         sessTargetDurationMs = 10000, startAt = 4000, endAt = 12000,
         status = StatusAborted, effectiveDurationMs = 8000, overdueMs = None\<rparr>]"
  by (simp add: all_defs generateId_example)

section \<open>Operations from other source states (C5)\<close>

text \<open>
  C5, as stated, fails: reset while Running is not a no-op. In the concrete session it
  moves the hook to Idle, cancels the interval and clears the start timestamp.
\<close>

theorem reset_while_running_goes_idle:
  "state (stateData runningExample) = Running
   \<and> state (stateData (resetSession runningExample)) = Idle
   \<and> timer (resetSession runningExample) = NoTimer
   \<and> startTimestampRef (resetSession runningExample) = None"
  by (simp add: all_defs generateId_example)

text \<open>
  C5, amended. An operation that guards on the source state is a no-op outside it and
  leaves the whole hook unchanged: start outside Idle, pause outside Running (so pause
  while Idle has no effect), resume outside Paused, abort in Idle and in Finished; abort
  in Aborted leaves the state Aborted. Reset has no guard: from every state, Arming,
  Running and Paused included, it moves the hook to Idle.
\<close>

theorem guarded_operations_noop:
  "(state (stateData h) \<noteq> Idle \<longrightarrow> startSession now h = h)
   \<and> (state (stateData h) \<noteq> Running \<longrightarrow> pauseSession now h = h)
   \<and> (state (stateData h) \<noteq> Paused \<longrightarrow> resumeSession now h = h)
   \<and> (state (stateData h) = Idle \<or> state (stateData h) = Finished \<longrightarrow> abortSession now h = h)
   \<and> (state (stateData h) = Aborted \<longrightarrow> state (stateData (abortSession now h)) = Aborted)
   \<and> state (stateData (resetSession h)) = Idle"
  by (simp add: startSession_def pauseSession_def resumeSession_def abortSession_def
      resetSession_def clearState_def resetRefs_def clearTimer_def play_def commitSession_def
      loadSessions_def saveSession_def Let_def)

text \<open>
  C5, witness: the amended statement at the freshly loaded page (Idle), at the running
  session and at the session aborted at 5000.
\<close>

theorem guarded_operations_noop_witness:
  "pauseSession 600 freshExample = freshExample
   \<and> resumeSession 600 freshExample = freshExample
   \<and> abortSession 600 freshExample = freshExample
   \<and> startSession 5000 runningExample = runningExample
   \<and> resumeSession 5000 runningExample = runningExample
   \<and> state (stateData (abortSession 6000 (abortSession 5000 runningExample))) = Aborted
   \<and> state (stateData (resetSession runningExample)) = Idle"
  using guarded_operations_noop [of freshExample 600]
    guarded_operations_noop [of runningExample 5000]
    guarded_operations_noop [of "abortSession 5000 runningExample" 6000]
  by (simp add: freshExample_fields runningExample_fields abortedExample_fields)

section \<open>Recovery and re-snapshot (C6)\<close>

text \<open>
  C6: restoring from a snapshot and writing the snapshot again, with no time elapsed,
  must give the same snapshot. The running session wrote a snapshot with a target of
  10000 ms at 4000. A reload at 4000 restores the activity type only; \<open>startTimer\<close>
  writes the snapshot at once with the callbacks of the first render, so it holds the
  default activity and the default target of 300000 ms; a snapshot taken by the next
  render still holds 300000 ms, since \<open>targetMinutes\<close> and \<open>targetSeconds\<close> are never
  restored.
\<close>

theorem mount_resnapshot_changes_target:
  "storedState runningExample = Some exampleSnapshot
   \<and> state (stateData (mount 4000 [] (reload runningExample))) = Running
   \<and> storedState (mount 4000 [] (reload runningExample)) =
       Some (exampleSnapshot\<lparr>p_activityType := ''Loading'', p_targetDurationMs := 300000\<rparr>)
   \<and> snapshot (renderClosure (mount 4000 [] (reload runningExample))) Running
         (mount 4000 [] (reload runningExample)) =
       exampleSnapshot\<lparr>p_targetDurationMs := 300000\<rparr>"
  by (simp add: all_defs generateId_example)

section \<open>Abort while arming (C7)\<close>

text \<open>
  C7, as stated, fails: the abort of the concrete session at 2000, while Arming, reaches
  Aborted and commits no Session Record.
\<close>

theorem abort_while_arming_no_record:
  "state (stateData armingExample) = Arming
   \<and> state (stateData (abortSession 2000 armingExample)) = Aborted
   \<and> storedSessions (abortSession 2000 armingExample) = []
   \<and> sessions (abortSession 2000 armingExample) = []"
  by (simp add: all_defs)

text \<open>
  C7, amended. When abort is called while the hook is Arming, in any reachable state,
  the hook moves to Aborted, commits no Session Record (the stored history and the
  displayed list are unchanged, since no session id exists yet), fires the abort alert
  (when not muted and sound is enabled), cancels the interval and clears the snapshot.
\<close>

theorem abort_while_arming:
  assumes "reachable h" and "state (stateData h) = Arming"
  shows "state (stateData (abortSession now h)) = Aborted
    \<and> storedSessions (abortSession now h) = storedSessions h
    \<and> sessions (abortSession now h) = sessions h
    \<and> beeps (abortSession now h) =
        (if \<not> mute (stateData h) \<and> audioEnabled h then beeps h @ [BeepAbortLow] else beeps h)
    \<and> storedState (abortSession now h) = None
    \<and> timer (abortSession now h) = NoTimer
    \<and> armingStartTimestampRef (abortSession now h) = None"
proof -
  have "sessionIdRef h = None"
    using assms by (simp add: reachable_no_session)
  then show ?thesis
    using assms(2)
    by (simp add: abortSession_unfold commitSession_skip clearState_def resetRefs_def
        clearTimer_def play_def renderClosure_def closureOf_def)
qed

text \<open>C7, witness: the amended statement at the concrete session, aborted at 2000.\<close>

theorem abort_while_arming_witness:
  "reachable armingExample
   \<and> state (stateData armingExample) = Arming
   \<and> state (stateData (abortSession 2000 armingExample)) = Aborted
   \<and> storedSessions (abortSession 2000 armingExample) = []
   \<and> beeps (abortSession 2000 armingExample) = [BeepAbortLow]
   \<and> storedState (abortSession 2000 armingExample) = None"
proof -
  have r: "reachable armingExample" by (rule reachable_armingExample)
  have s: "state (stateData armingExample) = Arming" by (simp add: armingExample_fields)
  from abort_while_arming [OF r s, of 2000] r s show ?thesis
    by (simp add: armingExample_fields)
qed

section \<open>One record per completed session (C8)\<close>




section \<open>Resume (C9)\<close>

text \<open>
  C9: after resume the remaining time must equal the remaining time at the instant of
  the pause, and a session whose remaining time is \<open>\<le> 0\<close> must move to Finished. The
  concrete session, with a target of 10000 ms, shows 5000 ms at the tick at 9000 and is
  paused there; the page is reloaded at 10000 and restores the Paused state with its
  timestamps. \<open>resumeSession\<close> at 12000 adds the 3000 ms of pause and clears \<open>pausedAt\<close>,
  but it computes the remaining time from \<open>targetDurationMs\<close> of the current \<open>config\<close>,
  which the mount effect did not restore: the default five minutes. The first tick shows
  295000 ms instead of 5000. The session that the tick at 19000 showed 5000 ms overdue,
  paused at 20000 and reloaded at 21000, resumes at 25000 to Running with 284000 ms
  instead of moving to Finished.
\<close>

theorem resume_after_reload_wrong_remaining:
  "remainingMs (stateData (tick 9000 [] runningExample)) = 5000
   \<and> state (stateData reloadedPausedExample) = Paused
   \<and> startTimestampRef reloadedPausedExample = Some 4000
   \<and> pausedAtRef reloadedPausedExample = Some 9000
   \<and> accumulatedPausedMsRef reloadedPausedExample = 0
   \<and> state (stateData (resumeSession 12000 reloadedPausedExample)) = Running
   \<and> accumulatedPausedMsRef (resumeSession 12000 reloadedPausedExample) = 3000
   \<and> pausedAtRef (resumeSession 12000 reloadedPausedExample) = None
   \<and> remainingMs (stateData (tick 12000 [] (resumeSession 12000 reloadedPausedExample)))
        = 295000
   \<and> remainingMs (stateData (tick 19000 [] runningExample)) = - 5000
   \<and> state (stateData reloadedOverdueExample) = Paused
   \<and> pausedAtRef reloadedOverdueExample = Some 20000
   \<and> state (stateData (resumeSession 25000 reloadedOverdueExample)) = Running
   \<and> remainingMs (stateData (tick 25000 [] (resumeSession 25000 reloadedOverdueExample)))
        = 284000"
  by (simp add: all_defs generateId_example)

section \<open>Reset (C10)\<close>

text \<open>
  C10. \<open>resetSession\<close> sets the state to Idle, zeroes the remaining time and the arming
  countdown, clears the warning flag, the session timestamps, the session id, the
  accumulated pause and the alarm flags, cancels the interval and clears the snapshot;
  the mute flag, the configuration, the sound switch, the history and the log of beeps
  are unchanged.
\<close>

theorem resetSession_frame:
  "state (stateData (resetSession h)) = Idle
   \<and> remainingMs (stateData (resetSession h)) = 0
   \<and> armingCountdown (stateData (resetSession h)) = 0
   \<and> isWarning (stateData (resetSession h)) = False
   \<and> startTimestampRef (resetSession h) = None
   \<and> pausedAtRef (resetSession h) = None
   \<and> armingStartTimestampRef (resetSession h) = None
   \<and> sessionIdRef (resetSession h) = None
   \<and> accumulatedPausedMsRef (resetSession h) = 0
   \<and> warningTriggeredRef (resetSession h) = False
   \<and> finishAlarmTriggeredRef (resetSession h) = False
   \<and> timer (resetSession h) = NoTimer
   \<and> storedState (resetSession h) = None
   \<and> mute (stateData (resetSession h)) = mute (stateData h)
   \<and> config (resetSession h) = config h
   \<and> memoConfig (resetSession h) = memoConfig h
   \<and> audioEnabled (resetSession h) = audioEnabled h
   \<and> sessions (resetSession h) = sessions h
   \<and> storedSessions (resetSession h) = storedSessions h
   \<and> lastCountdownRef (resetSession h) = lastCountdownRef h
   \<and> beeps (resetSession h) = beeps h"
  by (simp add: resetSession_def clearState_def resetRefs_def clearTimer_def)

end
